theory Spec2Isabelle
  imports Complex_Main
begin

section \<open>The bookstore backend (server.js): data model\<close>

text \<open>
  The server keeps two MongoDB collections (User, Purchase) and one in-memory object
  (otpStore). A request handler is modelled as a function from the request's fields, the
  readings it takes from its surroundings (the clock, the random number, the outcome of a
  collaborator's call) and the state before, to an outcome and the state after.

  JSON strings are \<open>string\<close>, an ObjectId is a natural number, a field that a document
  may lack is an \<open>option\<close>, amounts and instants (\<open>Date.now()\<close>, milliseconds) are
  integers.
\<close>

type_synonym oid = nat

text \<open>UserSchema (lines 25-29). No path is declared unique or required.\<close>

record user =
  user_id :: oid
  name :: "string option"
  email :: "string option"
  mobile :: "string option"
  password :: "string option"
  isNewUser :: bool
  purchases :: "oid list"

text \<open>PurchaseSchema (lines 32-37). \<open>paymentId\<close> is a plain String path: no index.\<close>

record item =
  bookId :: int
  qty :: int
  price :: int
  title :: string

record purchase =
  purchase_id :: oid
  user :: oid
  items :: "item list"
  total_amount :: int
  paymentId :: string
  address :: string
  date :: int

text \<open>The order that is sent to the payment gateway (lines 124-128).\<close>

record order_request =
  amount :: int
  currency :: string
  receipt :: string

text \<open>A value of otpStore (line 100).\<close>

record challenge =
  otp :: string
  expires :: int

text \<open>
  What a read of \<open>otpStore[key]\<close> gives: \<open>undefined\<close>, a challenge, or a value that
  is no challenge (a function or the prototype object that a plain object inherits, a
  string, a number). Of such a value line 112 uses three things only: whether it is
  truthy, and its properties \<open>expires\<close> and \<open>otp\<close>, which are both \<open>undefined\<close>.
\<close>

datatype otp_entry = Undefined | Rec challenge | Foreign bool

text \<open>
  The \<open>otp\<close> field of a request body: absent (\<open>undefined\<close> after destructuring), a
  string, or any other JSON value (a number, \<open>null\<close>, ...).
\<close>

datatype js_field = Absent | Str string | Other_json

text \<open>
  \<open>otpStore\<close> is a plain JavaScript object used as a dictionary. Its own properties are
  the map \<open>otpStore\<close>. One key is not an own property: an assignment to the key
  \<open>__proto__\<close> of a plain object replaces the object's prototype when the value is an
  object, a read of that key returns the prototype, and \<open>delete\<close> of it removes nothing.
  \<open>otpProto\<close> is the challenge that was assigned to that key, if any; while there is
  none the prototype is \<open>Object.prototype\<close>.
  \<open>next_oid\<close> is the supply of fresh ObjectIds. \<open>gateway_orders\<close> are the orders
  opened at the payment gateway: they live outside the server and are kept here so that
  what the server asked the gateway for can be observed.
\<close>

record state =
  Users :: "user list"
  Purchases :: "purchase list"
  otpStore :: "string \<rightharpoonup> challenge"
  otpProto :: "challenge option"
  gateway_orders :: "order_request list"
  next_oid :: oid

subsection \<open>Session tokens (jsonwebtoken)\<close>

text \<open>
  The payload that \<open>jwt.sign({ id }, secret, { expiresIn: '7d' })\<close> signs: the id, the
  issuance second \<open>iat\<close> and the expiry second \<open>exp\<close> (here \<open>exp_at\<close>). A token signed
  elsewhere with the same secret may carry no \<open>exp\<close>. A string that does not parse as a token is
  \<open>Malformed\<close>.
\<close>

record jwt_payload =
  payload_id :: oid
  iat :: int
  exp_at :: "int option"

datatype jwt = Malformed string | Signed jwt_payload string

datatype jwt_error = JsonWebTokenError | TokenExpiredError

subsection \<open>Collaborators and configuration\<close>

text \<open>
  The libraries the server calls are parameters of the model: the two secrets of the
  process environment, the keyed hashes (HMAC-SHA256 as a hex digest, and the HS256
  signature of a token payload), bcrypt, the SMS service and the payment gateway.
  The SMS service and the gateway answer \<open>None\<close> when the call fails.
\<close>

record sms =
  sms_body :: string
  sms_from :: string
  sms_to :: string

record deps =
  JWT_SECRET :: string
  RAZORPAY_KEY_SECRET :: string
  TWILIO_PHONE :: string
  hmac_sha256_hex :: "string \<Rightarrow> string \<Rightarrow> string"
  hs256 :: "string \<Rightarrow> jwt_payload \<Rightarrow> string"
  bcrypt_hash :: "string \<Rightarrow> string \<Rightarrow> string"
  bcrypt_compare :: "string \<Rightarrow> string \<Rightarrow> bool"
  twilio_create :: "sms \<Rightarrow> unit option"
  rzp_orders_create :: "order_request \<Rightarrow> string option"

subsection \<open>Outcomes of a request\<close>

datatype json =
  Token_body jwt bool
  | Error_body string
  | Msg_body string
  | Id_body string
  | Ok_body

datatype exn = BcryptIllegalArguments | TwilioError | RazorpayError

text \<open>
  A handler either sends a response (status, body) or its promise rejects: no response
  is sent and the error leaves the handler.
\<close>

datatype outcome = Responded nat json | Threw exn

section \<open>Library functions\<close>

text \<open>\<open>Number.prototype.toString\<close> on an integer: its decimal digits.\<close>

definition digit :: "nat \<Rightarrow> char" where
  "digit d = ''0123456789'' ! (d mod 10)"

fun digits :: "nat \<Rightarrow> string" where
  "digits n = (if n < 10 then [digit n] else digits (n div 10) @ [digit (n mod 10)])"

declare digits.simps [simp del]

definition toString :: "int \<Rightarrow> string" where
  "toString i = (if i < 0 then CHR ''-'' # digits (nat (- i)) else digits (nat i))"

text \<open>
  The two calls into jsonwebtoken, as the library documents them:
  \<open>jwt.sign\<close> with \<open>expiresIn: '7d'\<close> at clock reading \<open>clock\<close> (whole seconds since
  the epoch, the unit of \<open>iat\<close> and \<open>exp\<close>), and \<open>jwt.verify\<close>: the signature is
  checked first, then \<open>exp\<close> against the clock; a token is expired from the second
  \<open>exp\<close> on.
\<close>

definition jwt_sign :: "deps \<Rightarrow> int \<Rightarrow> oid \<Rightarrow> jwt" where
  "jwt_sign d clock uid =
     (let p = \<lparr>payload_id = uid, iat = clock, exp_at = Some (clock + 7 * 24 * 60 * 60)\<rparr>
      in Signed p (hs256 d (JWT_SECRET d) p))"

definition jwt_verify :: "deps \<Rightarrow> int \<Rightarrow> jwt \<Rightarrow> jwt_error + jwt_payload" where
  "jwt_verify d clock token =
     (case token of
        Malformed _ \<Rightarrow> Inl JsonWebTokenError
      | Signed p sg \<Rightarrow>
          if sg \<noteq> hs256 d (JWT_SECRET d) p then Inl JsonWebTokenError
          else (case exp_at p of
                  None \<Rightarrow> Inr p
                | Some e \<Rightarrow> if e \<le> clock then Inl TokenExpiredError else Inr p))"

text \<open>
  \<open>bcrypt.compare(s, hash)\<close> rejects with "Illegal arguments" when the hash is not a
  string, which is what a document without a password gives.
\<close>

definition compare :: "deps \<Rightarrow> string \<Rightarrow> string option \<Rightarrow> exn + bool" where
  "compare d s hash =
     (case hash of None \<Rightarrow> Inl BcryptIllegalArguments | Some h \<Rightarrow> Inr (bcrypt_compare d s h))"

text \<open>
  \<open>Model.findOne\<close>: the first document, in the collection's order, that satisfies the
  filter. \<open>Model.updateOne\<close>: the first such document is updated, if there is one.
\<close>

fun findOne :: "('a \<Rightarrow> bool) \<Rightarrow> 'a list \<Rightarrow> 'a option" where
  "findOne f [] = None"
| "findOne f (x # xs) = (if f x then Some x else findOne f xs)"

fun updateOne :: "('a \<Rightarrow> bool) \<Rightarrow> ('a \<Rightarrow> 'a) \<Rightarrow> 'a list \<Rightarrow> 'a list" where
  "updateOne f g [] = []"
| "updateOne f g (x # xs) = (if f x then g x # xs else x # updateOne f g xs)"

text \<open>
  Reading, writing and deleting a key of \<open>otpStore\<close>. A read finds an own property
  first and then follows the prototype chain: the challenge that was assigned to
  \<open>__proto__\<close>, if any (its own properties are \<open>otp\<close>, a string, and \<open>expires\<close>, a
  number), and then \<open>Object.prototype\<close>, whose properties are functions. The key
  \<open>__proto__\<close> itself reads as the prototype. A write to any other key makes an own
  property, also when the name is inherited.
\<close>

definition object_prototype_names :: "string list" where
  "object_prototype_names =
     [''constructor'', ''__defineGetter__'', ''__defineSetter__'', ''hasOwnProperty'',
      ''__lookupGetter__'', ''__lookupSetter__'', ''isPrototypeOf'', ''propertyIsEnumerable'',
      ''toString'', ''valueOf'', ''toLocaleString'']"

definition inherited :: "state \<Rightarrow> string \<Rightarrow> otp_entry" where
  "inherited s k =
     (case otpProto s of
        Some c \<Rightarrow>
          if k = ''otp'' then Foreign (otp c \<noteq> [])
          else if k = ''expires'' then Foreign (expires c \<noteq> 0)
          else if k \<in> set object_prototype_names then Foreign True else Undefined
      | None \<Rightarrow> if k \<in> set object_prototype_names then Foreign True else Undefined)"

definition otp_get :: "state \<Rightarrow> string \<Rightarrow> otp_entry" where
  "otp_get s k =
     (if k = ''__proto__'' then (case otpProto s of Some c \<Rightarrow> Rec c | None \<Rightarrow> Foreign True)
      else (case otpStore s k of Some c \<Rightarrow> Rec c | None \<Rightarrow> inherited s k))"

definition otp_set :: "state \<Rightarrow> string \<Rightarrow> challenge \<Rightarrow> state" where
  "otp_set s k c =
     (if k = ''__proto__'' then s\<lparr>otpProto := Some c\<rparr>
      else s\<lparr>otpStore := (otpStore s)(k \<mapsto> c)\<rparr>)"

definition otp_delete :: "state \<Rightarrow> string \<Rightarrow> state" where
  "otp_delete s k =
     (if k = ''__proto__'' then s else s\<lparr>otpStore := (otpStore s)(k := None)\<rparr>)"

section \<open>The Auth middleware (lines 63-71)\<close>

text \<open>
  The Authorization header is absent (or nothing is left of it once \<open>Bearer \<close> is
  removed), or it carries a token. The result is the response the middleware sends, or
  the \<open>req.userId\<close> it hands to the route.
\<close>

definition auth :: "deps \<Rightarrow> int \<Rightarrow> jwt option \<Rightarrow> outcome + oid" where
  "auth d clock header =
     (case header of
        None \<Rightarrow> Inl (Responded 401 (Error_body ''No token''))
      | Some token \<Rightarrow>
          (case jwt_verify d clock token of
             Inl e \<Rightarrow> Inl (Responded 401 (Error_body ''Bad token''))
           | Inr decoded \<Rightarrow> Inr (payload_id decoded)))"

definition authenticated ::
  "deps \<Rightarrow> int \<Rightarrow> jwt option \<Rightarrow> (oid \<Rightarrow> state \<Rightarrow> outcome \<times> state) \<Rightarrow> state \<Rightarrow> outcome \<times> state" where
  "authenticated d clock header route s =
     (case auth d clock header of Inl r \<Rightarrow> (r, s) | Inr userId \<Rightarrow> route userId s)"

section \<open>The routes\<close>

text \<open>
  Every route takes the collaborators \<open>d\<close> first. \<open>now\<close> is the value of
  \<open>Date.now()\<close> (milliseconds) where the route reads it; \<open>clock\<close> is the reading of the
  token library's clock (whole seconds) where the route signs or verifies a token.
\<close>

subsection \<open>POST /api/register (lines 76-83)\<close>

definition register ::
  "deps \<Rightarrow> int \<Rightarrow> string \<Rightarrow> string option \<Rightarrow> string option \<Rightarrow> string option \<Rightarrow> string
     \<Rightarrow> state \<Rightarrow> outcome \<times> state" where
  "register d clock salt nm em mob pw s =
     (let hashed = bcrypt_hash d salt pw;
          u = \<lparr>user_id = next_oid s, name = nm, email = em, mobile = mob,
               password = Some hashed, isNewUser = True, purchases = []\<rparr>;
          s' = s\<lparr>Users := Users s @ [u], next_oid := Suc (next_oid s)\<rparr>;
          token = jwt_sign d clock (user_id u)
      in (Responded 200 (Token_body token True), s'))"

subsection \<open>POST /api/login (lines 86-93)\<close>

definition login :: "deps \<Rightarrow> int \<Rightarrow> string \<Rightarrow> string \<Rightarrow> state \<Rightarrow> outcome \<times> state" where
  "login d clock ident pw s =
     (case findOne (\<lambda>u. email u = Some ident \<or> mobile u = Some ident) (Users s) of
        None \<Rightarrow> (Responded 401 (Error_body ''Invalid credentials''), s)
      | Some u \<Rightarrow>
          (case compare d pw (password u) of
             Inl e \<Rightarrow> (Threw e, s)
           | Inr ok \<Rightarrow>
               if \<not> ok then (Responded 401 (Error_body ''Invalid credentials''), s)
               else (Responded 200 (Token_body (jwt_sign d clock (user_id u)) (isNewUser u)), s)))"

subsection \<open>POST /api/send-otp (lines 97-107)\<close>

text \<open>
  \<open>r\<close> is the value of \<open>Math.random()\<close>, \<open>now\<close> the value of \<open>Date.now()\<close>.
  The challenge is written to the store before the SMS call is made.
\<close>

definition new_otp :: "real \<Rightarrow> string" where
  "new_otp r = toString \<lfloor>100000 + r * 900000\<rfloor>"

definition send_otp :: "deps \<Rightarrow> int \<Rightarrow> real \<Rightarrow> string \<Rightarrow> state \<Rightarrow> outcome \<times> state" where
  "send_otp d now r mob s =
     (let code = new_otp r;
          s' = otp_set s mob \<lparr>otp = code, expires = now + 5 * 60 * 1000\<rparr>
      in (case twilio_create d
                 \<lparr>sms_body = ''ShyamBooks OTP: '' @ code, sms_from = TWILIO_PHONE d, sms_to = mob\<rparr> of
            None \<Rightarrow> (Threw TwilioError, s')
          | Some _ \<Rightarrow> (Responded 200 (Msg_body ''sent''), s')))"

subsection \<open>POST /api/verify-otp (lines 109-119)\<close>

text \<open>
  The condition of line 112, \<open>!rec || rec.expires < Date.now() || rec.otp !== otp\<close>.
  For a value that is no challenge, \<open>rec.expires < Date.now()\<close> compares \<open>undefined\<close>
  with a number, which is false, and \<open>rec.otp !== otp\<close> compares \<open>undefined\<close> with
  the request's field, which is false exactly when the request has no \<open>otp\<close> field.
\<close>

fun invalid_otp :: "otp_entry \<Rightarrow> js_field \<Rightarrow> int \<Rightarrow> bool" where
  "invalid_otp Undefined code now = True"
| "invalid_otp (Foreign truthy) code now = (\<not> truthy \<or> code \<noteq> Absent)"
| "invalid_otp (Rec rec) code now = (expires rec < now \<or> Str (otp rec) \<noteq> code)"

text \<open>The \<open>mobile\<close> field is a string, as the schema types it.\<close>

definition verify_otp ::
  "deps \<Rightarrow> int \<Rightarrow> int \<Rightarrow> string \<Rightarrow> js_field \<Rightarrow> state \<Rightarrow> outcome \<times> state" where
  "verify_otp d now clock mob code s =
     (if invalid_otp (otp_get s mob) code now
      then (Responded 400 (Error_body ''Invalid OTP''), s)
      else
        (let s1 = otp_delete s mob
         in (case findOne (\<lambda>u. mobile u = Some mob) (Users s1) of
               Some u \<Rightarrow>
                 (Responded 200 (Token_body (jwt_sign d clock (user_id u)) (isNewUser u)), s1)
             | None \<Rightarrow>
                 (let u = \<lparr>user_id = next_oid s1, name = None, email = None,
                           mobile = Some mob, password = None, isNewUser = True,
                           purchases = []\<rparr>;
                      s2 = s1\<lparr>Users := Users s1 @ [u], next_oid := Suc (next_oid s1)\<rparr>
                  in (Responded 200 (Token_body (jwt_sign d clock (user_id u)) (isNewUser u)),
                      s2)))))"

subsection \<open>POST /api/create-order (lines 122-130)\<close>

text \<open>The request the route sends to the gateway, and the route behind \<open>auth\<close>.\<close>

definition order_of :: "int \<Rightarrow> int \<Rightarrow> order_request" where
  "order_of amt now = \<lparr>amount = amt * 100, currency = ''INR'', receipt = ''receipt_'' @ toString now\<rparr>"

definition create_order_route :: "deps \<Rightarrow> int \<Rightarrow> int \<Rightarrow> oid \<Rightarrow> state \<Rightarrow> outcome \<times> state" where
  "create_order_route d now amt userId s =
     (case rzp_orders_create d (order_of amt now) of
        None \<Rightarrow> (Threw RazorpayError, s)
      | Some order_id \<Rightarrow>
          (Responded 200 (Id_body order_id),
           s\<lparr>gateway_orders := gateway_orders s @ [order_of amt now]\<rparr>))"

definition create_order ::
  "deps \<Rightarrow> int \<Rightarrow> int \<Rightarrow> jwt option \<Rightarrow> int \<Rightarrow> state \<Rightarrow> outcome \<times> state" where
  "create_order d now clock header amt s =
     authenticated d clock header (create_order_route d now amt) s"

subsection \<open>POST /api/verify-payment (lines 132-142)\<close>

definition sign :: "deps \<Rightarrow> string \<Rightarrow> string \<Rightarrow> string" where
  "sign d razorpay_order_id razorpay_payment_id =
     hmac_sha256_hex d (RAZORPAY_KEY_SECRET d) (razorpay_order_id @ ''|'' @ razorpay_payment_id)"

definition verify_payment_route ::
  "deps \<Rightarrow> int \<Rightarrow> string \<Rightarrow> string \<Rightarrow> string \<Rightarrow> item list \<Rightarrow> int \<Rightarrow> string \<Rightarrow> oid
     \<Rightarrow> state \<Rightarrow> outcome \<times> state" where
  "verify_payment_route d now razorpay_payment_id razorpay_order_id razorpay_signature
       its tot addr userId s =
     (if sign d razorpay_order_id razorpay_payment_id \<noteq> razorpay_signature
      then (Responded 400 (Error_body ''Bad sign''), s)
      else
        (let p = \<lparr>purchase_id = next_oid s, user = userId, items = its, total_amount = tot,
                  paymentId = razorpay_payment_id, address = addr, date = now\<rparr>;
             s1 = s\<lparr>Purchases := Purchases s @ [p], next_oid := Suc (next_oid s)\<rparr>;
             s2 = s1\<lparr>Users := updateOne (\<lambda>u. user_id u = userId) (\<lambda>u. u\<lparr>isNewUser := False\<rparr>)
                                  (Users s1)\<rparr>
         in (Responded 200 Ok_body, s2)))"

definition verify_payment ::
  "deps \<Rightarrow> int \<Rightarrow> int \<Rightarrow> jwt option \<Rightarrow> string \<Rightarrow> string \<Rightarrow> string \<Rightarrow> item list \<Rightarrow> int \<Rightarrow> string
     \<Rightarrow> state \<Rightarrow> outcome \<times> state" where
  "verify_payment d now clock header razorpay_payment_id razorpay_order_id razorpay_signature
       its tot addr s =
     authenticated d clock header
       (verify_payment_route d now razorpay_payment_id razorpay_order_id razorpay_signature
          its tot addr) s"

section \<open>Sample surroundings\<close>

text \<open>
  The database and \<open>otpStore\<close> as they are when the process starts, and one choice of
  collaborators on which the routes can be evaluated: the keyed hashes are stand-ins that
  prefix the message with the key, a password hash is the salt, a dollar sign and the
  password, every SMS is delivered and every order is opened.
  \<open>sms_down\<close> is the same with an SMS service that fails.
\<close>

definition empty_state :: state where
  "empty_state =
     \<lparr>Users = [], Purchases = [], otpStore = Map.empty, otpProto = None, gateway_orders = [],
      next_oid = 0\<rparr>"

definition sample_deps :: deps where
  "sample_deps =
     \<lparr>JWT_SECRET = ''jwt-secret'', RAZORPAY_KEY_SECRET = ''rzp-secret'',
      TWILIO_PHONE = ''+15550000000'',
      hmac_sha256_hex = (\<lambda>key msg. key @ '':'' @ msg),
      hs256 = (\<lambda>key p. key @ '':'' @ toString (int (payload_id p))),
      bcrypt_hash = (\<lambda>salt s. salt @ ''$'' @ s),
      bcrypt_compare = (\<lambda>s h. s = drop (Suc (length (takeWhile (\<lambda>c. c \<noteq> CHR ''$'') h))) h),
      twilio_create = (\<lambda>m. Some ()),
      rzp_orders_create = (\<lambda>r. Some ''order_abc'')\<rparr>"

definition sms_down :: deps where
  "sms_down = sample_deps\<lparr>twilio_create := (\<lambda>m. None)\<rparr>"



text \<open>
  Requests used to evaluate the routes. \<open>pay_xyz\<close> is scenario C of the specification:
  the correctly signed confirmation of payment \<open>pay_xyz\<close> for order \<open>order_abc\<close>,
  total 500, sent by the bearer of a token for id 7. \<open>register_ab\<close> is one registration
  form. \<open>issue_8888\<close> is the state after an OTP was requested for 8888888888 at time 0
  with \<open>Math.random()\<close> giving one half, and \<open>one_user\<close> the state once that OTP has
  been verified: a single account, created by OTP sign-up. \<open>email_then_otp\<close> is the
  state after a registration that gives the string 8888888888 as its email, followed by
  an OTP sign-up for the mobile 8888888888.
\<close>

definition pay_xyz :: "int \<Rightarrow> int \<Rightarrow> state \<Rightarrow> outcome \<times> state" where
  "pay_xyz now clock s =
     verify_payment sample_deps now clock (Some (jwt_sign sample_deps 0 7)) ''pay_xyz'' ''order_abc''
       (sign sample_deps ''order_abc'' ''pay_xyz'')
       [\<lparr>bookId = 1, qty = 1, price = 500, title = ''Book''\<rparr>] 500 ''addr'' s"

definition register_ab :: "int \<Rightarrow> state \<Rightarrow> outcome \<times> state" where
  "register_ab clock s =
     register sample_deps clock ''salt'' (Some ''Asha'') (Some ''a@b.c'') (Some ''9999999999'')
       ''pw123456'' s"

definition issue_8888 :: state where
  "issue_8888 = snd (send_otp sample_deps 0 (1 / 2) ''8888888888'' empty_state)"

definition email_then_otp :: state where
  "email_then_otp =
     snd (verify_otp sample_deps 1000 1 ''8888888888'' (Str ''550000'')
       (snd (send_otp sample_deps 0 (1 / 2) ''8888888888''
         (snd (register sample_deps 0 ''salt'' None (Some ''8888888888'') None ''pw123456''
                 empty_state)))))"

definition one_user :: state where
  "one_user =
     empty_state\<lparr>Users := [\<lparr>user_id = 0, name = None, email = None, mobile = Some ''8888888888'',
                            password = None, isNewUser = True, purchases = []\<rparr>],
                 next_oid := 1\<rparr>"

text \<open>The responses \<open>{token, isNewUser}\<close> with status 200: a session was opened.\<close>

fun token_reply :: "outcome \<Rightarrow> bool" where
  "token_reply (Responded st (Token_body t b)) = (st = 200)"
| "token_reply _ = False"

section \<open>Basic facts\<close>

lemma sample_simps:
  "JWT_SECRET sample_deps = ''jwt-secret''"
  "RAZORPAY_KEY_SECRET sample_deps = ''rzp-secret''"
  "TWILIO_PHONE sample_deps = ''+15550000000''"
  "hmac_sha256_hex sample_deps = (\<lambda>key msg. key @ '':'' @ msg)"
  "hs256 sample_deps = (\<lambda>key p. key @ '':'' @ toString (int (payload_id p)))"
  "bcrypt_hash sample_deps = (\<lambda>salt s. salt @ ''$'' @ s)"
  "bcrypt_compare sample_deps
     = (\<lambda>s h. s = drop (Suc (length (takeWhile (\<lambda>c. c \<noteq> CHR ''$'') h))) h)"
  "twilio_create sample_deps = (\<lambda>m. Some ())"
  "rzp_orders_create sample_deps = (\<lambda>r. Some ''order_abc'')"
  by (simp_all add: sample_deps_def)

subsection \<open>Decimal digits\<close>

lemma digits_lt10: "n < 10 \<Longrightarrow> digits n = [digit n]"
  by (simp add: digits.simps)

lemma digits_ge10: "10 \<le> n \<Longrightarrow> digits n = digits (n div 10) @ [digit (n mod 10)]"
  by (subst digits.simps) simp

lemma digit_in: "digit d \<in> set ''0123456789''"
proof -
  have "d mod 10 < length ''0123456789''" by simp
  then show ?thesis unfolding digit_def by (rule nth_mem)
qed

text \<open>A number with \<open>k + 1\<close> decimal places is written with \<open>k + 1\<close> characters.\<close>

lemma length_digits: "10 ^ k \<le> n \<Longrightarrow> n < 10 ^ Suc k \<Longrightarrow> length (digits n) = Suc k"
proof (induction k arbitrary: n)
  case 0
  then show ?case by (simp add: digits_lt10)
next
  case (Suc k)
  have "(1::nat) \<le> 10 ^ k" by simp
  then have "(10::nat) \<le> 10 ^ Suc k" by simp
  then have ge: "10 \<le> n" using Suc.prems(1) by linarith
  have lo: "10 ^ k \<le> n div 10" using Suc.prems(1) by simp
  have hi: "n div 10 < 10 ^ Suc k" using Suc.prems(2) by simp
  have "length (digits (n div 10)) = Suc k" using lo hi by (rule Suc.IH)
  then show ?case using ge by (simp add: digits_ge10)
qed

lemma set_digits: "set (digits n) \<subseteq> set ''0123456789''"
proof (induction n rule: digits.induct)
  case (1 n)
  show ?case
  proof (cases "n < 10")
    case True
    then show ?thesis using digit_in [of n] by (simp add: digits_lt10)
  next
    case False
    then have "set (digits (n div 10)) \<subseteq> set ''0123456789''" using 1 by simp
    then show ?thesis using False digit_in [of "n mod 10"]
      by (simp add: digits_ge10)
  qed
qed

subsection \<open>The generated code\<close>

lemma otp_range:
  fixes r :: real
  assumes "0 \<le> r" and "r < 1"
  shows "100000 \<le> \<lfloor>100000 + r * 900000\<rfloor> \<and> \<lfloor>100000 + r * 900000\<rfloor> \<le> 999999"
proof -
  have "(100000::real) \<le> 100000 + r * 900000" using assms(1) by simp
  then have lo: "100000 \<le> \<lfloor>100000 + r * 900000\<rfloor>" by linarith
  have "100000 + r * 900000 < (1000000::real)" using assms(2) by simp
  then have "\<lfloor>100000 + r * 900000\<rfloor> < 1000000" by linarith
  then show ?thesis using lo by simp
qed

lemma new_otp_digits:
  assumes "0 \<le> r" and "r < 1"
  shows "new_otp r = digits (nat \<lfloor>100000 + r * 900000\<rfloor>)"
proof -
  define n where "n = \<lfloor>100000 + r * 900000\<rfloor>"
  have "100000 \<le> n \<and> n \<le> 999999" unfolding n_def by (rule otp_range [OF assms])
  then have "toString n = digits (nat n)" by (simp add: toString_def)
  then show ?thesis unfolding new_otp_def n_def .
qed

lemma new_otp_length:
  assumes "0 \<le> r" and "r < 1"
  shows "length (new_otp r) = 6"
proof -
  define n where "n = nat \<lfloor>100000 + r * 900000\<rfloor>"
  have "100000 \<le> \<lfloor>100000 + r * 900000\<rfloor> \<and> \<lfloor>100000 + r * 900000\<rfloor> \<le> 999999"
    by (rule otp_range [OF assms])
  then have "100000 \<le> n \<and> n \<le> 999999" unfolding n_def by linarith
  then have "10 ^ 5 \<le> n" and "n < 10 ^ Suc 5" by simp_all
  then have "length (digits n) = Suc 5" by (rule length_digits)
  then show ?thesis unfolding new_otp_digits [OF assms] n_def by simp
qed

lemma new_otp_half: "new_otp (1 / 2) = ''550000''"
  by (simp add: new_otp_def toString_def digits.simps digit_def)

subsection \<open>Collections\<close>

lemma findOne_None_iff: "findOne f xs = None \<longleftrightarrow> (\<forall>x \<in> set xs. \<not> f x)"
  by (induction xs) auto

lemma findOne_snoc:
  "findOne f (xs @ [x]) =
     (case findOne f xs of Some y \<Rightarrow> Some y | None \<Rightarrow> if f x then Some x else None)"
  by (induction xs) auto

lemma updateOne_none: "\<forall>x \<in> set xs. \<not> f x \<Longrightarrow> updateOne f g xs = xs"
  by (induction xs) auto

subsection \<open>The OTP store\<close>

lemma otp_get_set [simp]: "otp_get (otp_set s k c) k = Rec c"
  by (simp add: otp_get_def otp_set_def)

lemma inherited_not_Rec: "inherited s k \<noteq> Rec c"
  by (simp add: inherited_def split: option.splits)

lemma otp_get_not_own:
  "k \<noteq> ''__proto__'' \<Longrightarrow> otpStore s k = None \<Longrightarrow> otp_get s k \<noteq> Rec c"
  by (simp add: otp_get_def inherited_not_Rec)

lemma otpStore_otp_delete: "k \<noteq> ''__proto__'' \<Longrightarrow> otpStore (otp_delete s k) k = None"
  by (simp add: otp_delete_def)

lemma Users_otp_delete [simp]: "Users (otp_delete s k) = Users s"
  by (simp add: otp_delete_def)

lemma next_oid_otp_delete [simp]: "next_oid (otp_delete s k) = next_oid s"
  by (simp add: otp_delete_def)

lemma snd_send_otp:
  "snd (send_otp d now r mob s) = otp_set s mob \<lparr>otp = new_otp r, expires = now + 300000\<rparr>"
  by (simp add: send_otp_def Let_def split: option.splits)

lemma issue_8888_eq:
  "issue_8888 = empty_state\<lparr>otpStore := [''8888888888'' \<mapsto> \<lparr>otp = ''550000'', expires = 300000\<rparr>]\<rparr>"
  by (simp add: issue_8888_def snd_send_otp new_otp_half otp_set_def empty_state_def)

text \<open>With a string code, line 112 lets through a matching, unexpired challenge only.\<close>

lemma invalid_otp_Str:
  "invalid_otp e (Str c) now = (\<not> (\<exists>rec. e = Rec rec \<and> otp rec = c \<and> now \<le> expires rec))"
  by (cases e) auto

text \<open>The two ways through verify-otp.\<close>

lemma verify_otp_reject:
  assumes "invalid_otp (otp_get s mob) code now"
  shows "verify_otp d now clock mob code s = (Responded 400 (Error_body ''Invalid OTP''), s)"
  using assms by (simp add: verify_otp_def)

lemma verify_otp_accept:
  assumes "\<not> invalid_otp (otp_get s mob) code now"
  shows "verify_otp d now clock mob code s =
     (case findOne (\<lambda>u. mobile u = Some mob) (Users s) of
        Some u \<Rightarrow> (Responded 200 (Token_body (jwt_sign d clock (user_id u)) (isNewUser u)),
                   otp_delete s mob)
      | None \<Rightarrow> (Responded 200 (Token_body (jwt_sign d clock (next_oid s)) True),
                 (otp_delete s mob)
                   \<lparr>Users := Users s @
                      [\<lparr>user_id = next_oid s, name = None, email = None, mobile = Some mob,
                        password = None, isNewUser = True, purchases = []\<rparr>],
                    next_oid := Suc (next_oid s)\<rparr>))"
  using assms by (simp add: verify_otp_def Let_def split: option.splits)

lemma verify_otp_token_iff:
  "token_reply (fst (verify_otp d now clock mob code s)) = (\<not> invalid_otp (otp_get s mob) code now)"
proof (cases "invalid_otp (otp_get s mob) code now")
  case True
  then show ?thesis by (simp add: verify_otp_reject)
next
  case False
  then show ?thesis by (simp add: verify_otp_accept split: option.splits)
qed

lemma verify_otp_Str_iff:
  "token_reply (fst (verify_otp d now clock mob (Str c) s))
     = (\<exists>rec. otp_get s mob = Rec rec \<and> otp rec = c \<and> now \<le> expires rec)"
  unfolding verify_otp_token_iff invalid_otp_Str by blast

lemma otpStore_after_verify:
  assumes "mob \<noteq> ''__proto__''"
    and "token_reply (fst (verify_otp d now clock mob code s))"
  shows "otpStore (snd (verify_otp d now clock mob code s)) mob = None"
proof -
  from assms(2) have ok: "\<not> invalid_otp (otp_get s mob) code now"
    by (simp add: verify_otp_token_iff)
  show ?thesis
    using assms(1) by (simp add: verify_otp_accept [OF ok] otp_delete_def split: option.splits)
qed

text \<open>An \<open>otp\<close> field that is present and not a string never verifies.\<close>

lemma verify_otp_Other_json:
  "verify_otp d now clock mob Other_json s = (Responded 400 (Error_body ''Invalid OTP''), s)"
proof -
  have "invalid_otp (otp_get s mob) Other_json now"
    by (cases "otp_get s mob") simp_all
  then show ?thesis by (rule verify_otp_reject)
qed

text \<open>
  The key \<open>__proto__\<close> is the one key under which a challenge survives its own
  verification: \<open>delete\<close> removes nothing there, and the same code is accepted again.
\<close>

lemma proto_challenge_is_kept:
  "token_reply (fst (verify_otp sample_deps 2 0 ''__proto__'' (Str ''550000'')
     (snd (verify_otp sample_deps 1 0 ''__proto__'' (Str ''550000'')
        (snd (send_otp sample_deps 0 (1 / 2) ''__proto__'' empty_state))))))"
  by (simp add: snd_send_otp new_otp_half otp_set_def verify_otp_def otp_get_def otp_delete_def
      empty_state_def Let_def)

text \<open>
  A request without an \<open>otp\<close> field passes line 112 at a name that the store inherits:
  for the mobile \<open>constructor\<close>, on the empty store, verify-otp opens a session and
  creates the account although no challenge was issued. With an \<open>otp\<close> field, string or
  not, the same request is refused.
\<close>

lemma inherited_name_without_code:
  "verify_otp sample_deps 0 0 ''constructor'' Absent empty_state
     = (Responded 200 (Token_body (jwt_sign sample_deps 0 0) True),
        empty_state\<lparr>Users := [\<lparr>user_id = 0, name = None, email = None,
                                  mobile = Some ''constructor'', password = None,
                                  isNewUser = True, purchases = []\<rparr>],
                    next_oid := 1\<rparr>)"
  by (simp add: verify_otp_def otp_get_def inherited_def object_prototype_names_def
      otp_delete_def empty_state_def Let_def)

lemma inherited_name_with_code:
  "fst (verify_otp sample_deps 0 0 ''constructor'' (Str ''550000'') empty_state)
     = Responded 400 (Error_body ''Invalid OTP'') \<and>
   fst (verify_otp sample_deps 0 0 ''constructor'' Other_json empty_state)
     = Responded 400 (Error_body ''Invalid OTP'')"
  by (simp add: verify_otp_def otp_get_def inherited_def object_prototype_names_def
      empty_state_def)

subsection \<open>Tokens and the payment routes\<close>

text \<open>A token of this server passes \<open>auth\<close> exactly while the clock is before its expiry.\<close>

lemma auth_sign_iff:
  "auth d clock (Some (jwt_sign d issued uid)) =
     (if clock < issued + 604800 then Inr uid else Inl (Responded 401 (Error_body ''Bad token'')))"
  by (simp add: auth_def jwt_verify_def jwt_sign_def Let_def)

lemma auth_signed:
  "auth d clock (Some (Signed p sg)) =
     (if sg = hs256 d (JWT_SECRET d) p \<and> (\<forall>e. exp_at p = Some e \<longrightarrow> clock < e)
      then Inr (payload_id p) else Inl (Responded 401 (Error_body ''Bad token'')))"
  by (auto simp: auth_def jwt_verify_def split: option.splits)


text \<open>The two ways through verify-payment, for a request that passed or failed the check.\<close>

lemma verify_payment_accept:
  assumes "auth d clock header = Inr userId"
    and "razorpay_signature = sign d razorpay_order_id razorpay_payment_id"
  shows "verify_payment d now clock header razorpay_payment_id razorpay_order_id
           razorpay_signature its tot addr s =
         (Responded 200 Ok_body,
          s\<lparr>Purchases := Purchases s @
               [\<lparr>purchase_id = next_oid s, user = userId, items = its, total_amount = tot,
                 paymentId = razorpay_payment_id, address = addr, date = now\<rparr>],
            next_oid := Suc (next_oid s),
            Users := updateOne (\<lambda>u. user_id u = userId) (\<lambda>u. u\<lparr>isNewUser := False\<rparr>) (Users s)\<rparr>)"
  using assms by (simp add: verify_payment_def authenticated_def verify_payment_route_def Let_def)

lemma verify_payment_reject:
  assumes "razorpay_signature \<noteq> sign d razorpay_order_id razorpay_payment_id"
  shows "verify_payment d now clock header razorpay_payment_id razorpay_order_id
           razorpay_signature its tot addr s =
         (case auth d clock header of
            Inl r \<Rightarrow> r
          | Inr _ \<Rightarrow> Responded 400 (Error_body ''Bad sign''), s)"
  using assms
  by (auto simp add: verify_payment_def authenticated_def verify_payment_route_def
      split: sum.splits)

section \<open>Session tokens and the Auth middleware\<close>

text \<open>
  C6: time is read on the token library's clock, in whole seconds. A token issued for
  \<open>userId\<close> at second \<open>issued\<close> verifies, and \<open>auth\<close> resolves it to \<open>userId\<close>, at
  every second before \<open>issued\<close> + 7 days. From that second on verification fails as
  expired, and a token whose signature is not the one the process secret gives fails at
  any time; \<open>auth\<close> answers both with 401 \<open>Bad token\<close>. The token that register returns
  is issued in this way.
\<close>

theorem C6_session_token:
  "(clock < issued + 7 * 24 * 60 * 60 \<longrightarrow>
      jwt_verify d clock (jwt_sign d issued userId)
        = Inr \<lparr>payload_id = userId, iat = issued, exp_at = Some (issued + 7 * 24 * 60 * 60)\<rparr> \<and>
      auth d clock (Some (jwt_sign d issued userId)) = Inr userId) \<and>
   (issued + 7 * 24 * 60 * 60 \<le> clock \<longrightarrow>
      jwt_verify d clock (jwt_sign d issued userId) = Inl TokenExpiredError \<and>
      auth d clock (Some (jwt_sign d issued userId))
        = Inl (Responded 401 (Error_body ''Bad token''))) \<and>
   (sg \<noteq> hs256 d (JWT_SECRET d) p \<longrightarrow>
      jwt_verify d clock (Signed p sg) = Inl JsonWebTokenError \<and>
      auth d clock (Some (Signed p sg)) = Inl (Responded 401 (Error_body ''Bad token''))) \<and>
   fst (register d issued salt nm em mob pw s)
     = Responded 200 (Token_body (jwt_sign d issued (next_oid s)) True)"
proof -
  let ?p = "\<lparr>payload_id = userId, iat = issued, exp_at = Some (issued + 7 * 24 * 60 * 60)\<rparr>"
  have tok: "jwt_sign d issued userId = Signed ?p (hs256 d (JWT_SECRET d) ?p)"
    by (simp add: jwt_sign_def Let_def)
  have fresh: "clock < issued + 7 * 24 * 60 * 60 \<longrightarrow>
      jwt_verify d clock (jwt_sign d issued userId) = Inr ?p \<and>
      auth d clock (Some (jwt_sign d issued userId)) = Inr userId"
    unfolding tok by (simp add: jwt_verify_def auth_def)
  have stale: "issued + 7 * 24 * 60 * 60 \<le> clock \<longrightarrow>
      jwt_verify d clock (jwt_sign d issued userId) = Inl TokenExpiredError \<and>
      auth d clock (Some (jwt_sign d issued userId))
        = Inl (Responded 401 (Error_body ''Bad token''))"
    unfolding tok by (simp add: jwt_verify_def auth_def)
  have forged: "sg \<noteq> hs256 d (JWT_SECRET d) p \<longrightarrow>
      jwt_verify d clock (Signed p sg) = Inl JsonWebTokenError \<and>
      auth d clock (Some (Signed p sg)) = Inl (Responded 401 (Error_body ''Bad token''))"
    by (simp add: jwt_verify_def auth_def)
  have issue: "fst (register d issued salt nm em mob pw s)
     = Responded 200 (Token_body (jwt_sign d issued (next_oid s)) True)"
    by (simp add: register_def Let_def)
  show ?thesis
    by (intro conjI fresh stale forged issue)
qed

text \<open>
  C6 for a token issued at second 0: accepted in the last second of the seventh day,
  refused at 7 days and after; a forged signature is refused at once.
\<close>

theorem C6_session_token_witness:
  "auth sample_deps 604799 (Some (jwt_sign sample_deps 0 7)) = Inr 7 \<and>
   auth sample_deps 604800 (Some (jwt_sign sample_deps 0 7))
     = Inl (Responded 401 (Error_body ''Bad token'')) \<and>
   auth sample_deps 604801 (Some (jwt_sign sample_deps 0 7))
     = Inl (Responded 401 (Error_body ''Bad token'')) \<and>
   ''forged'' \<noteq> hs256 sample_deps (JWT_SECRET sample_deps)
                   \<lparr>payload_id = 7, iat = 0, exp_at = Some 604800\<rparr> \<and>
   auth sample_deps 1 (Some (Signed \<lparr>payload_id = 7, iat = 0, exp_at = Some 604800\<rparr> ''forged''))
     = Inl (Responded 401 (Error_body ''Bad token''))"
proof -
  have f: "''forged'' \<noteq> hs256 sample_deps (JWT_SECRET sample_deps)
                   \<lparr>payload_id = 7, iat = 0, exp_at = Some 604800\<rparr>"
    by (simp add: sample_simps)
  show ?thesis
    using f
      C6_session_token [where d = sample_deps and clock = 604799 and issued = 0 and userId = 7
        and sg = "''forged''" and p = "\<lparr>payload_id = 7, iat = 0, exp_at = Some 604800\<rparr>"]
      C6_session_token [where d = sample_deps and clock = 604800 and issued = 0 and userId = 7]
      C6_session_token [where d = sample_deps and clock = 604801 and issued = 0 and userId = 7]
      C6_session_token [where d = sample_deps and clock = 1 and issued = 0 and userId = 7
        and sg = "''forged''" and p = "\<lparr>payload_id = 7, iat = 0, exp_at = Some 604800\<rparr>"]
    by simp
qed

section \<open>The credential store\<close>

text \<open>
  C4 (as stated: register fails with a conflict, 409, when the email or mobile is already
  registered, so no two User records share an email or a mobile). The code does not do
  this: the same form registered twice is answered 200 with a token both times, and the
  collection then holds two User documents with the same email and the same mobile.
\<close>

theorem C4_counterexample:
  "fst (register_ab 2 (snd (register_ab 1 empty_state)))
     = Responded 200 (Token_body (jwt_sign sample_deps 2 1) True) \<and>
   map email (Users (snd (register_ab 2 (snd (register_ab 1 empty_state)))))
     = [Some ''a@b.c'', Some ''a@b.c''] \<and>
   map mobile (Users (snd (register_ab 2 (snd (register_ab 1 empty_state)))))
     = [Some ''9999999999'', Some ''9999999999'']"
  by (simp add: register_ab_def register_def Let_def empty_state_def)

text \<open>
  C4, amended: register reads nothing and the schema declares no unique path, so register
  never answers with a conflict. Whatever the email and mobile, already registered or
  not, it appends one User document with a fresh id, the given name, email and mobile and
  the bcrypt hash of the password, and answers 200 with a token for that id and
  \<open>isNewUser: true\<close>. What stays unique is the id: when the ids in use are distinct and
  below the supply, they still are afterwards. Two User documents may share an email or a
  mobile.
\<close>

theorem C4_register_never_conflicts:
  "fst (register d clock salt nm em mob pw s)
     = Responded 200 (Token_body (jwt_sign d clock (next_oid s)) True) \<and>
   Users (snd (register d clock salt nm em mob pw s))
     = Users s @ [\<lparr>user_id = next_oid s, name = nm, email = em, mobile = mob,
                    password = Some (bcrypt_hash d salt pw), isNewUser = True, purchases = []\<rparr>] \<and>
   ((\<forall>u \<in> set (Users s). user_id u < next_oid s) \<longrightarrow>
      distinct (map user_id (Users s)) \<longrightarrow>
      distinct (map user_id (Users (snd (register d clock salt nm em mob pw s)))) \<and>
      (\<forall>u \<in> set (Users (snd (register d clock salt nm em mob pw s))).
         user_id u < next_oid (snd (register d clock salt nm em mob pw s))))"
proof -
  let ?u = "\<lparr>user_id = next_oid s, name = nm, email = em, mobile = mob,
             password = Some (bcrypt_hash d salt pw), isNewUser = True, purchases = []\<rparr>"
  have reply: "fst (register d clock salt nm em mob pw s)
     = Responded 200 (Token_body (jwt_sign d clock (next_oid s)) True)"
    by (simp add: register_def Let_def)
  have users: "Users (snd (register d clock salt nm em mob pw s)) = Users s @ [?u]"
    by (simp add: register_def Let_def)
  have counter: "next_oid (snd (register d clock salt nm em mob pw s)) = Suc (next_oid s)"
    by (simp add: register_def Let_def)
  have ids: "(\<forall>u \<in> set (Users s). user_id u < next_oid s) \<longrightarrow>
      distinct (map user_id (Users s)) \<longrightarrow>
      distinct (map user_id (Users (snd (register d clock salt nm em mob pw s)))) \<and>
      (\<forall>u \<in> set (Users (snd (register d clock salt nm em mob pw s))).
         user_id u < next_oid (snd (register d clock salt nm em mob pw s)))"
    unfolding users counter by auto
  show ?thesis
    by (intro conjI reply users ids)
qed

text \<open>
  C4, amended, on a database that already has an account for 8888888888: registering
  that mobile again succeeds and leaves two documents with it, under different ids.
\<close>

theorem C4_register_never_conflicts_witness:
  "map user_id (Users one_user) = [0] \<and> next_oid one_user = 1 \<and>
   map mobile (Users one_user) = [Some ''8888888888''] \<and>
   fst (register sample_deps 9 ''salt'' None None (Some ''8888888888'') ''pw'' one_user)
     = Responded 200 (Token_body (jwt_sign sample_deps 9 1) True) \<and>
   map mobile (Users (snd (register sample_deps 9 ''salt'' None None (Some ''8888888888'') ''pw''
                             one_user)))
     = [Some ''8888888888'', Some ''8888888888''] \<and>
   map user_id (Users (snd (register sample_deps 9 ''salt'' None None (Some ''8888888888'') ''pw''
                             one_user)))
     = [0, 1]"
proof -
  have b: "\<forall>u \<in> set (Users one_user). user_id u < next_oid one_user"
    by (simp add: one_user_def empty_state_def)
  have dd: "distinct (map user_id (Users one_user))"
    by (simp add: one_user_def empty_state_def)
  show ?thesis
    using b dd
      C4_register_never_conflicts [where d = sample_deps and clock = 9 and salt = "''salt''"
        and nm = None and em = None and mob = "Some ''8888888888''" and pw = "''pw''"
        and s = one_user]
    by (simp add: one_user_def empty_state_def)
qed

text \<open>
  C9 (as stated: for every User record created by OTP verification, login with that
  user's mobile and any password does not answer 401 \<open>Invalid credentials\<close>). The code
  does not do this for every such record: login takes the first document that has the
  identifier as its email or as its mobile. After a registration with the email
  8888888888 and an OTP sign-up for the mobile 8888888888, the collection holds the
  registered document and then the OTP-created one, which has no password; login with
  8888888888 and a wrong password compares against the registered document's hash and
  answers 401 \<open>Invalid credentials\<close>.
\<close>

theorem C9_counterexample:
  "map password (Users email_then_otp) = [Some ''salt$pw123456'', None] \<and>
   map mobile (Users email_then_otp) = [None, Some ''8888888888''] \<and>
   fst (login sample_deps 2 ''8888888888'' ''guess'' email_then_otp)
     = Responded 401 (Error_body ''Invalid credentials'')"
proof -
  have st: "email_then_otp =
      empty_state\<lparr>Users :=
          [\<lparr>user_id = 0, name = None, email = Some ''8888888888'', mobile = None,
            password = Some ''salt$pw123456'', isNewUser = True, purchases = []\<rparr>,
           \<lparr>user_id = 1, name = None, email = None, mobile = Some ''8888888888'',
            password = None, isNewUser = True, purchases = []\<rparr>],
        next_oid := 2\<rparr>"
    by (simp add: email_then_otp_def register_def snd_send_otp new_otp_half otp_set_def
        verify_otp_def otp_get_def otp_delete_def sample_simps empty_state_def Let_def)
  show ?thesis
    unfolding st by (simp add: login_def compare_def sample_simps empty_state_def)
qed

text \<open>
  C9, amended: a User document that verify-otp created has no password. Whenever login's
  lookup resolves to a document without a password, the bcrypt comparison rejects and
  login throws: it sends no response, in particular not 401 \<open>Invalid credentials\<close>,
  for every password. The lookup resolves to the account that a successful verify-otp
  has just created whenever no document was found under that mobile string before,
  neither as mobile nor as email. When an earlier document carries the string as its
  email, login checks that document's password instead.
\<close>

theorem C9_login_throws_without_hash:
  "(findOne (\<lambda>u. email u = Some ident \<or> mobile u = Some ident) (Users s) = Some u \<longrightarrow>
      password u = None \<longrightarrow>
      login d clock ident pw s = (Threw BcryptIllegalArguments, s)) \<and>
   (token_reply (fst (verify_otp d now clock' mob code s)) \<longrightarrow>
      findOne (\<lambda>u. email u = Some mob \<or> mobile u = Some mob) (Users s) = None \<longrightarrow>
      password (last (Users (snd (verify_otp d now clock' mob code s)))) = None \<and>
      mobile (last (Users (snd (verify_otp d now clock' mob code s)))) = Some mob \<and>
      login d clock mob pw (snd (verify_otp d now clock' mob code s))
        = (Threw BcryptIllegalArguments, snd (verify_otp d now clock' mob code s)))"
proof -
  have gen: "findOne (\<lambda>u. email u = Some ident \<or> mobile u = Some ident) (Users s) = Some u \<longrightarrow>
      password u = None \<longrightarrow>
      login d clock ident pw s = (Threw BcryptIllegalArguments, s)"
    by (simp add: login_def compare_def)
  have otp: "token_reply (fst (verify_otp d now clock' mob code s)) \<longrightarrow>
      findOne (\<lambda>u. email u = Some mob \<or> mobile u = Some mob) (Users s) = None \<longrightarrow>
      password (last (Users (snd (verify_otp d now clock' mob code s)))) = None \<and>
      mobile (last (Users (snd (verify_otp d now clock' mob code s)))) = Some mob \<and>
      login d clock mob pw (snd (verify_otp d now clock' mob code s))
        = (Threw BcryptIllegalArguments, snd (verify_otp d now clock' mob code s))"
  proof (intro impI)
    assume ok: "token_reply (fst (verify_otp d now clock' mob code s))"
      and none: "findOne (\<lambda>u. email u = Some mob \<or> mobile u = Some mob) (Users s) = None"
    from ok have r: "\<not> invalid_otp (otp_get s mob) code now"
      by (simp add: verify_otp_token_iff)
    from none have nm: "findOne (\<lambda>u. mobile u = Some mob) (Users s) = None"
      unfolding findOne_None_iff by blast
    let ?u = "\<lparr>user_id = next_oid s, name = None, email = None, mobile = Some mob,
               password = None, isNewUser = True, purchases = []\<rparr>"
    have us: "Users (snd (verify_otp d now clock' mob code s)) = Users s @ [?u]"
      by (simp add: verify_otp_accept [OF r] nm)
    have "findOne (\<lambda>u. email u = Some mob \<or> mobile u = Some mob)
            (Users (snd (verify_otp d now clock' mob code s))) = Some ?u"
      unfolding us findOne_snoc none by simp
    then have "login d clock mob pw (snd (verify_otp d now clock' mob code s))
        = (Threw BcryptIllegalArguments, snd (verify_otp d now clock' mob code s))"
      by (simp add: login_def compare_def)
    then show "password (last (Users (snd (verify_otp d now clock' mob code s)))) = None \<and>
      mobile (last (Users (snd (verify_otp d now clock' mob code s)))) = Some mob \<and>
      login d clock mob pw (snd (verify_otp d now clock' mob code s))
        = (Threw BcryptIllegalArguments, snd (verify_otp d now clock' mob code s))"
      by (simp add: us)
  qed
  show ?thesis
    by (intro conjI gen otp)
qed

text \<open>
  C9, amended, for the account that OTP sign-up creates for 8888888888 on the empty
  database: login with that mobile throws.
\<close>

theorem C9_login_throws_without_hash_witness:
  "token_reply (fst (verify_otp sample_deps 1000 1 ''8888888888'' (Str ''550000'') issue_8888)) \<and>
   findOne (\<lambda>u. email u = Some ''8888888888'' \<or> mobile u = Some ''8888888888'')
     (Users issue_8888) = None \<and>
   snd (verify_otp sample_deps 1000 1 ''8888888888'' (Str ''550000'') issue_8888) = one_user \<and>
   login sample_deps 2 ''8888888888'' ''pw123456'' one_user
     = (Threw BcryptIllegalArguments, one_user) \<and>
   login sample_deps 2 ''8888888888'' ''pw123456'' one_user
     \<noteq> (Responded 401 (Error_body ''Invalid credentials''), one_user)"
proof -
  have s1: "snd (verify_otp sample_deps 1000 1 ''8888888888'' (Str ''550000'') issue_8888)
      = one_user"
    by (simp add: issue_8888_eq verify_otp_def otp_get_def otp_delete_def one_user_def
        empty_state_def Let_def)
  have ok: "token_reply
      (fst (verify_otp sample_deps 1000 1 ''8888888888'' (Str ''550000'') issue_8888))"
    by (simp add: issue_8888_eq verify_otp_def otp_get_def otp_delete_def empty_state_def Let_def)
  have none: "findOne (\<lambda>u. email u = Some ''8888888888'' \<or> mobile u = Some ''8888888888'')
     (Users issue_8888) = None"
    by (simp add: issue_8888_eq empty_state_def)
  show ?thesis
    using ok none s1
      C9_login_throws_without_hash [where d = sample_deps and now = 1000 and clock' = 1
        and mob = "''8888888888''" and code = "Str ''550000''" and s = issue_8888 and clock = 2
        and pw = "''pw123456''"]
    by simp
qed

section \<open>The OTP challenge manager\<close>

text \<open>
  C8: for \<open>Math.random()\<close> in its range (0 included, 1 excluded), send-otp stores under
  the mobile the decimal writing of a number from 100000 to 999999 (six digit
  characters) with expiry exactly 5 minutes (300000 ms) after \<open>Date.now()\<close>, whatever
  was stored under that mobile before. The store is written before the SMS call and its
  content does not depend on the call's outcome: when the SMS service fails the route
  throws, the challenge is in the store all the same, and verify-otp accepts its code up
  to the expiry.
\<close>

theorem C8_send_otp:
  assumes "0 \<le> r" and "r < 1"
  shows "snd (send_otp d now r mob s)
           = otp_set s mob \<lparr>otp = new_otp r, expires = now + 5 * 60 * 1000\<rparr> \<and>
         otp_get (snd (send_otp d now r mob s)) mob
           = Rec \<lparr>otp = new_otp r, expires = now + 5 * 60 * 1000\<rparr> \<and>
         new_otp r = digits (nat \<lfloor>100000 + r * 900000\<rfloor>) \<and>
         100000 \<le> \<lfloor>100000 + r * 900000\<rfloor> \<and> \<lfloor>100000 + r * 900000\<rfloor> \<le> 999999 \<and>
         length (new_otp r) = 6 \<and> set (new_otp r) \<subseteq> set ''0123456789'' \<and>
         (twilio_create d
            \<lparr>sms_body = ''ShyamBooks OTP: '' @ new_otp r, sms_from = TWILIO_PHONE d, sms_to = mob\<rparr>
            = None \<longrightarrow>
          fst (send_otp d now r mob s) = Threw TwilioError \<and>
          (t \<le> now + 5 * 60 * 1000 \<longrightarrow>
             token_reply (fst (verify_otp d t clock mob (Str (new_otp r)) (snd (send_otp d now r mob s))))))"
proof -
  have stored: "snd (send_otp d now r mob s)
           = otp_set s mob \<lparr>otp = new_otp r, expires = now + 5 * 60 * 1000\<rparr>"
    by (simp add: snd_send_otp)
  have got: "otp_get (snd (send_otp d now r mob s)) mob
           = Rec \<lparr>otp = new_otp r, expires = now + 5 * 60 * 1000\<rparr>"
    by (simp add: snd_send_otp)
  have dig: "new_otp r = digits (nat \<lfloor>100000 + r * 900000\<rfloor>)"
    by (rule new_otp_digits [OF assms])
  have lo: "100000 \<le> \<lfloor>100000 + r * 900000\<rfloor>" and hi: "\<lfloor>100000 + r * 900000\<rfloor> \<le> 999999"
    using otp_range [OF assms] by blast+
  have len: "length (new_otp r) = 6"
    by (rule new_otp_length [OF assms])
  have chars: "set (new_otp r) \<subseteq> set ''0123456789''"
    unfolding dig by (rule set_digits)
  have down: "twilio_create d
            \<lparr>sms_body = ''ShyamBooks OTP: '' @ new_otp r, sms_from = TWILIO_PHONE d, sms_to = mob\<rparr>
            = None \<longrightarrow>
          fst (send_otp d now r mob s) = Threw TwilioError \<and>
          (t \<le> now + 5 * 60 * 1000 \<longrightarrow>
             token_reply (fst (verify_otp d t clock mob (Str (new_otp r)) (snd (send_otp d now r mob s)))))"
    by (simp add: verify_otp_Str_iff snd_send_otp) (simp add: send_otp_def Let_def)
  show ?thesis
    by (intro conjI stored got dig lo hi len chars down)
qed

text \<open>
  C8 with an SMS service that is down: the route throws, the code 550000 is stored with
  expiry 300000, and verify-otp accepts it at that instant.
\<close>

theorem C8_send_otp_witness:
  "(0::real) \<le> 1 / 2 \<and> (1 / 2 :: real) < 1 \<and>
   twilio_create sms_down
     \<lparr>sms_body = ''ShyamBooks OTP: '' @ new_otp (1 / 2), sms_from = TWILIO_PHONE sms_down,
      sms_to = ''8888888888''\<rparr> = None \<and>
   send_otp sms_down 0 (1 / 2) ''8888888888'' one_user
     = (Threw TwilioError,
        one_user\<lparr>otpStore := [''8888888888'' \<mapsto> \<lparr>otp = ''550000'', expires = 300000\<rparr>]\<rparr>) \<and>
   token_reply (fst (verify_otp sms_down 300000 300 ''8888888888'' (Str ''550000'')
                       (snd (send_otp sms_down 0 (1 / 2) ''8888888888'' one_user))))"
proof -
  have r0: "(0::real) \<le> 1 / 2" and r1: "(1 / 2 :: real) < 1"
    by simp_all
  have dn: "twilio_create sms_down
     \<lparr>sms_body = ''ShyamBooks OTP: '' @ new_otp (1 / 2), sms_from = TWILIO_PHONE sms_down,
      sms_to = ''8888888888''\<rparr> = None"
    by (simp add: sms_down_def)
  show ?thesis
    using r0 r1 dn
      C8_send_otp [OF r0 r1, where d = sms_down and now = 0 and mob = "''8888888888''"
        and s = one_user and t = 300000 and clock = 300]
    by (simp add: snd_send_otp new_otp_half digits.simps digit_def prod_eq_iff otp_set_def
        one_user_def empty_state_def)
qed

text \<open>
  C5 (as stated: verify-otp succeeds iff the code is the latest one issued for the mobile
  and the current time is strictly less than issuance + 5 minutes). The code does not do
  this at the boundary: the code issued at time 0 expires at 300000, and a verify-otp
  request at time 300000, which is not before issuance + 5 minutes, succeeds.
\<close>

theorem C5_counterexample:
  "fst (verify_otp sample_deps 300000 300 ''8888888888'' (Str ''550000'') issue_8888)
     = Responded 200 (Token_body (jwt_sign sample_deps 300 0) True)"
  by (simp add: issue_8888_eq verify_otp_def otp_get_def otp_delete_def empty_state_def Let_def)

text \<open>
  C5, amended: for every mobile and every request whose \<open>otp\<close> field is a string,
  verify-otp succeeds iff a challenge is read under the mobile, the string equals its
  code, and the current time is at most its expiry; after send-otp that is: iff the
  string is the code just issued and the current time is at most issuance + 5 minutes
  (the route rejects only when \<open>expires < Date.now()\<close>, so the expiry instant itself is
  still accepted). Every other such request is answered 400 \<open>Invalid OTP\<close> and changes
  nothing. A new send-otp replaces the challenge, so an earlier code no longer verifies
  unless it is the new code. On success, for every mobile but the key \<open>__proto__\<close>, the
  challenge is deleted and a further verify-otp for that mobile fails with any string
  code; and the caller is resolved to the first User document with that mobile, or, when
  there is none, to a new document with that mobile, no password and
  \<open>isNewUser = true\<close>. Requests without a string \<open>otp\<close> field are left out here.
\<close>

theorem C5_verify_otp:
  "token_reply (fst (verify_otp d now clock mob (Str code) s))
     = (\<exists>rec. otp_get s mob = Rec rec \<and> otp rec = code \<and> now \<le> expires rec) \<and>
   (\<not> token_reply (fst (verify_otp d now clock mob (Str code) s)) \<longrightarrow>
      verify_otp d now clock mob (Str code) s = (Responded 400 (Error_body ''Invalid OTP''), s)) \<and>
   token_reply (fst (verify_otp d now clock mob (Str code) (snd (send_otp d issued r mob s))))
     = (code = new_otp r \<and> now \<le> issued + 5 * 60 * 1000) \<and>
   (token_reply (fst (verify_otp d now clock mob (Str code) s)) \<longrightarrow>
      (mob \<noteq> ''__proto__'' \<longrightarrow>
         otpStore (snd (verify_otp d now clock mob (Str code) s)) mob = None \<and>
         verify_otp d now' clock' mob (Str code') (snd (verify_otp d now clock mob (Str code) s))
           = (Responded 400 (Error_body ''Invalid OTP''),
              snd (verify_otp d now clock mob (Str code) s))) \<and>
      (case findOne (\<lambda>u. mobile u = Some mob) (Users s) of
         Some u \<Rightarrow>
           fst (verify_otp d now clock mob (Str code) s)
             = Responded 200 (Token_body (jwt_sign d clock (user_id u)) (isNewUser u)) \<and>
           Users (snd (verify_otp d now clock mob (Str code) s)) = Users s
       | None \<Rightarrow>
           fst (verify_otp d now clock mob (Str code) s)
             = Responded 200 (Token_body (jwt_sign d clock (next_oid s)) True) \<and>
           Users (snd (verify_otp d now clock mob (Str code) s))
             = Users s @ [\<lparr>user_id = next_oid s, name = None, email = None, mobile = Some mob,
                            password = None, isNewUser = True, purchases = []\<rparr>]))"
proof -
  have iff: "token_reply (fst (verify_otp d now clock mob (Str code) s))
     = (\<exists>rec. otp_get s mob = Rec rec \<and> otp rec = code \<and> now \<le> expires rec)"
    by (rule verify_otp_Str_iff)
  have rej: "\<not> token_reply (fst (verify_otp d now clock mob (Str code) s)) \<longrightarrow>
      verify_otp d now clock mob (Str code) s = (Responded 400 (Error_body ''Invalid OTP''), s)"
    by (simp add: verify_otp_token_iff verify_otp_reject)
  have recent:
    "token_reply (fst (verify_otp d now clock mob (Str code) (snd (send_otp d issued r mob s))))
     = (code = new_otp r \<and> now \<le> issued + 5 * 60 * 1000)"
    unfolding verify_otp_Str_iff snd_send_otp by auto
  have once: "token_reply (fst (verify_otp d now clock mob (Str code) s)) \<longrightarrow>
      mob \<noteq> ''__proto__'' \<longrightarrow>
         otpStore (snd (verify_otp d now clock mob (Str code) s)) mob = None \<and>
         verify_otp d now' clock' mob (Str code') (snd (verify_otp d now clock mob (Str code) s))
           = (Responded 400 (Error_body ''Invalid OTP''),
              snd (verify_otp d now clock mob (Str code) s))"
  proof (intro impI)
    assume ok: "token_reply (fst (verify_otp d now clock mob (Str code) s))"
      and np: "mob \<noteq> ''__proto__''"
    have none: "otpStore (snd (verify_otp d now clock mob (Str code) s)) mob = None"
      using np ok by (rule otpStore_after_verify)
    have "\<And>c. otp_get (snd (verify_otp d now clock mob (Str code) s)) mob \<noteq> Rec c"
      using np none by (rule otp_get_not_own)
    then have "invalid_otp (otp_get (snd (verify_otp d now clock mob (Str code) s)) mob)
        (Str code') now'"
      by (simp add: invalid_otp_Str)
    then have "verify_otp d now' clock' mob (Str code')
          (snd (verify_otp d now clock mob (Str code) s))
        = (Responded 400 (Error_body ''Invalid OTP''),
           snd (verify_otp d now clock mob (Str code) s))"
      by (rule verify_otp_reject)
    then show "otpStore (snd (verify_otp d now clock mob (Str code) s)) mob = None \<and>
         verify_otp d now' clock' mob (Str code') (snd (verify_otp d now clock mob (Str code) s))
           = (Responded 400 (Error_body ''Invalid OTP''),
              snd (verify_otp d now clock mob (Str code) s))"
      using none by simp
  qed
  have who: "token_reply (fst (verify_otp d now clock mob (Str code) s)) \<longrightarrow>
      (case findOne (\<lambda>u. mobile u = Some mob) (Users s) of
         Some u \<Rightarrow>
           fst (verify_otp d now clock mob (Str code) s)
             = Responded 200 (Token_body (jwt_sign d clock (user_id u)) (isNewUser u)) \<and>
           Users (snd (verify_otp d now clock mob (Str code) s)) = Users s
       | None \<Rightarrow>
           fst (verify_otp d now clock mob (Str code) s)
             = Responded 200 (Token_body (jwt_sign d clock (next_oid s)) True) \<and>
           Users (snd (verify_otp d now clock mob (Str code) s))
             = Users s @ [\<lparr>user_id = next_oid s, name = None, email = None, mobile = Some mob,
                            password = None, isNewUser = True, purchases = []\<rparr>])"
  proof
    assume "token_reply (fst (verify_otp d now clock mob (Str code) s))"
    then have r: "\<not> invalid_otp (otp_get s mob) (Str code) now"
      by (simp add: verify_otp_token_iff)
    show "case findOne (\<lambda>u. mobile u = Some mob) (Users s) of
         Some u \<Rightarrow>
           fst (verify_otp d now clock mob (Str code) s)
             = Responded 200 (Token_body (jwt_sign d clock (user_id u)) (isNewUser u)) \<and>
           Users (snd (verify_otp d now clock mob (Str code) s)) = Users s
       | None \<Rightarrow>
           fst (verify_otp d now clock mob (Str code) s)
             = Responded 200 (Token_body (jwt_sign d clock (next_oid s)) True) \<and>
           Users (snd (verify_otp d now clock mob (Str code) s))
             = Users s @ [\<lparr>user_id = next_oid s, name = None, email = None, mobile = Some mob,
                            password = None, isNewUser = True, purchases = []\<rparr>]"
      by (simp add: verify_otp_accept [OF r] split: option.splits)
  qed
  have both: "\<And>A B C D. A \<longrightarrow> B \<longrightarrow> C \<Longrightarrow> A \<longrightarrow> D \<Longrightarrow> A \<longrightarrow> (B \<longrightarrow> C) \<and> D"
    by blast
  show ?thesis
    by (intro conjI iff rej recent both [OF once who])
qed

text \<open>
  C5, amended, on the code issued at time 0: accepted at the expiry instant 300000,
  creating the account; the same code is then refused; one millisecond after the expiry
  the code is refused and nothing changes; and at the inherited name \<open>constructor\<close> a
  string code is refused.
\<close>

theorem C5_verify_otp_witness:
  "token_reply
     (fst (verify_otp sample_deps 300000 300 ''8888888888'' (Str ''550000'') issue_8888)) \<and>
   ''8888888888'' \<noteq> ''__proto__'' \<and>
   findOne (\<lambda>u. mobile u = Some ''8888888888'') (Users issue_8888) = None \<and>
   Users (snd (verify_otp sample_deps 300000 300 ''8888888888'' (Str ''550000'') issue_8888))
     = [\<lparr>user_id = 0, name = None, email = None, mobile = Some ''8888888888'',
         password = None, isNewUser = True, purchases = []\<rparr>] \<and>
   fst (verify_otp sample_deps 300000 300 ''8888888888'' (Str ''550000'')
          (snd (verify_otp sample_deps 300000 300 ''8888888888'' (Str ''550000'') issue_8888)))
     = Responded 400 (Error_body ''Invalid OTP'') \<and>
   \<not> token_reply
       (fst (verify_otp sample_deps 300001 300 ''8888888888'' (Str ''550000'') issue_8888)) \<and>
   verify_otp sample_deps 300001 300 ''8888888888'' (Str ''550000'') issue_8888
     = (Responded 400 (Error_body ''Invalid OTP''), issue_8888) \<and>
   otp_get issue_8888 ''constructor'' = Foreign True \<and>
   verify_otp sample_deps 0 0 ''constructor'' (Str ''550000'') issue_8888
     = (Responded 400 (Error_body ''Invalid OTP''), issue_8888)"
proof -
  have g: "otp_get issue_8888 ''8888888888'' = Rec \<lparr>otp = ''550000'', expires = 300000\<rparr>"
    by (simp add: issue_8888_eq otp_get_def)
  have f: "otp_get issue_8888 ''constructor'' = Foreign True"
    by (simp add: issue_8888_eq otp_get_def inherited_def object_prototype_names_def
        empty_state_def)
  have u: "findOne (\<lambda>u. mobile u = Some ''8888888888'') (Users issue_8888) = None"
    "next_oid issue_8888 = 0" "Users issue_8888 = []"
    by (simp_all add: issue_8888_eq empty_state_def)
  have np: "''8888888888'' \<noteq> ''__proto__''"
    by simp
  note at = C5_verify_otp [where d = sample_deps and now = 300000 and clock = 300
        and mob = "''8888888888''" and code = "''550000''" and s = issue_8888
        and now' = 300000 and clock' = 300 and code' = "''550000''"]
  note late = C5_verify_otp [where d = sample_deps and now = 300001 and clock = 300
        and mob = "''8888888888''" and code = "''550000''" and s = issue_8888]
  note ctor = C5_verify_otp [where d = sample_deps and now = 0 and clock = 0
        and mob = "''constructor''" and code = "''550000''" and s = issue_8888]
  have ok: "token_reply
     (fst (verify_otp sample_deps 300000 300 ''8888888888'' (Str ''550000'') issue_8888))"
    unfolding at [THEN conjunct1] g by simp
  have after: "(''8888888888'' \<noteq> ''__proto__'' \<longrightarrow>
         otpStore (snd (verify_otp sample_deps 300000 300 ''8888888888'' (Str ''550000'')
                          issue_8888)) ''8888888888'' = None \<and>
         verify_otp sample_deps 300000 300 ''8888888888'' (Str ''550000'')
           (snd (verify_otp sample_deps 300000 300 ''8888888888'' (Str ''550000'') issue_8888))
           = (Responded 400 (Error_body ''Invalid OTP''),
              snd (verify_otp sample_deps 300000 300 ''8888888888'' (Str ''550000'')
                     issue_8888))) \<and>
      (case findOne (\<lambda>u. mobile u = Some ''8888888888'') (Users issue_8888) of
         Some u \<Rightarrow>
           fst (verify_otp sample_deps 300000 300 ''8888888888'' (Str ''550000'') issue_8888)
             = Responded 200 (Token_body (jwt_sign sample_deps 300 (user_id u)) (isNewUser u)) \<and>
           Users (snd (verify_otp sample_deps 300000 300 ''8888888888'' (Str ''550000'')
                         issue_8888)) = Users issue_8888
       | None \<Rightarrow>
           fst (verify_otp sample_deps 300000 300 ''8888888888'' (Str ''550000'') issue_8888)
             = Responded 200 (Token_body (jwt_sign sample_deps 300 (next_oid issue_8888)) True) \<and>
           Users (snd (verify_otp sample_deps 300000 300 ''8888888888'' (Str ''550000'')
                         issue_8888))
             = Users issue_8888 @
               [\<lparr>user_id = next_oid issue_8888, name = None, email = None,
                 mobile = Some ''8888888888'', password = None, isNewUser = True,
                 purchases = []\<rparr>])"
    using at [THEN conjunct2, THEN conjunct2, THEN conjunct2] ok by (rule mp)
  have again: "fst (verify_otp sample_deps 300000 300 ''8888888888'' (Str ''550000'')
          (snd (verify_otp sample_deps 300000 300 ''8888888888'' (Str ''550000'') issue_8888)))
     = Responded 400 (Error_body ''Invalid OTP'')"
    using after [THEN conjunct1, THEN mp, OF np] by simp
  have created: "Users (snd (verify_otp sample_deps 300000 300 ''8888888888'' (Str ''550000'')
                               issue_8888))
     = [\<lparr>user_id = 0, name = None, email = None, mobile = Some ''8888888888'',
         password = None, isNewUser = True, purchases = []\<rparr>]"
    using after [THEN conjunct2] unfolding u by simp
  have no: "\<not> token_reply
       (fst (verify_otp sample_deps 300001 300 ''8888888888'' (Str ''550000'') issue_8888))"
    unfolding late [THEN conjunct1] g by simp
  have unchanged: "verify_otp sample_deps 300001 300 ''8888888888'' (Str ''550000'') issue_8888
     = (Responded 400 (Error_body ''Invalid OTP''), issue_8888)"
    using late [THEN conjunct2, THEN conjunct1] no by (rule mp)
  have no_ctor: "\<not> token_reply
       (fst (verify_otp sample_deps 0 0 ''constructor'' (Str ''550000'') issue_8888))"
    unfolding ctor [THEN conjunct1] f by simp
  have refused: "verify_otp sample_deps 0 0 ''constructor'' (Str ''550000'') issue_8888
     = (Responded 400 (Error_body ''Invalid OTP''), issue_8888)"
    using ctor [THEN conjunct2, THEN conjunct1] no_ctor by (rule mp)
  show ?thesis
    by (intro conjI ok np u(1) created again no unchanged f refused)
qed

section \<open>The payment order coordinator\<close>

text \<open>
  C7 (as stated: the order opened at the gateway has the requested amount itself, not a
  multiple of it, and the given currency). The code does not do this: a request for
  amount 500 opens a gateway order of amount 50000.
\<close>

theorem C7_counterexample:
  "map amount (gateway_orders
      (snd (create_order sample_deps 0 1 (Some (jwt_sign sample_deps 0 7)) 500 empty_state)))
     = [50000]"
  by (simp add: create_order_def authenticated_def auth_sign_iff create_order_route_def
      order_of_def sample_simps empty_state_def)

text \<open>
  C7, amended: create-order takes the requested amount in major units (rupees) and
  converts it: for an authenticated request it asks the gateway for an order of exactly
  100 times the requested amount (paise), always in the currency \<open>INR\<close> (the request
  carries no currency), with the receipt \<open>receipt_\<close> followed by the time. When the
  gateway opens the order the route answers with its id; when the gateway fails the
  route throws and no order is opened. The amount is an integer whose hundredfold a
  JavaScript number holds exactly.
\<close>

theorem C7_order_amount:
  assumes "auth d clock header = Inr userId"
    and "\<bar>amt * 100\<bar> \<le> 2 ^ 53"
  shows "(rzp_orders_create d
            \<lparr>amount = 100 * amt, currency = ''INR'', receipt = ''receipt_'' @ toString now\<rparr>
            = Some order_id \<longrightarrow>
          create_order d now clock header amt s
            = (Responded 200 (Id_body order_id),
               s\<lparr>gateway_orders := gateway_orders s @
                    [\<lparr>amount = 100 * amt, currency = ''INR'',
                      receipt = ''receipt_'' @ toString now\<rparr>]\<rparr>)) \<and>
         (rzp_orders_create d
            \<lparr>amount = 100 * amt, currency = ''INR'', receipt = ''receipt_'' @ toString now\<rparr>
            = None \<longrightarrow>
          create_order d now clock header amt s = (Threw RazorpayError, s))"
  using assms(1)
  by (simp add: create_order_def authenticated_def create_order_route_def order_of_def
      mult.commute)

text \<open>
  C7, amended, for amount 500 at time 0: an order of 50000 INR is opened; with a gateway
  that fails, the route throws and the state is unchanged.
\<close>

theorem C7_order_amount_witness:
  "auth sample_deps 1 (Some (jwt_sign sample_deps 0 7)) = Inr 7 \<and>
   \<bar>500 * 100\<bar> \<le> (2::int) ^ 53 \<and>
   create_order sample_deps 0 1 (Some (jwt_sign sample_deps 0 7)) 500 empty_state
     = (Responded 200 (Id_body ''order_abc''),
        empty_state\<lparr>gateway_orders :=
          [\<lparr>amount = 50000, currency = ''INR'', receipt = ''receipt_0''\<rparr>]\<rparr>) \<and>
   create_order (sample_deps\<lparr>rzp_orders_create := (\<lambda>r. None)\<rparr>) 0 1
       (Some (jwt_sign (sample_deps\<lparr>rzp_orders_create := (\<lambda>r. None)\<rparr>) 0 7)) 500 empty_state
     = (Threw RazorpayError, empty_state)"
proof -
  let ?down = "sample_deps\<lparr>rzp_orders_create := (\<lambda>r. None)\<rparr>"
  have a: "auth sample_deps 1 (Some (jwt_sign sample_deps 0 7)) = Inr 7"
    by (simp add: auth_sign_iff)
  have a': "auth ?down 1 (Some (jwt_sign ?down 0 7)) = Inr 7"
    by (simp add: auth_sign_iff)
  have b: "\<bar>500 * 100\<bar> \<le> (2::int) ^ 53"
    by simp
  have z: "toString 0 = ''0''"
    by (simp add: toString_def digits.simps digit_def)
  show ?thesis
    using a b
      C7_order_amount [OF a b, where now = 0 and order_id = "''order_abc''" and s = empty_state]
      C7_order_amount [OF a' b, where now = 0 and s = empty_state]
    by (simp add: sample_simps z empty_state_def)
qed




text \<open>
  C3: a verify-payment request whose signature differs from the recomputed HMAC is
  answered 400 \<open>Bad sign\<close> by the route for whatever caller \<open>auth\<close> resolved, and the
  state after the request is the state before it: no Purchase document, no change to any
  User document (\<open>isNewUser\<close> included). The state is also unchanged when the request
  does not pass \<open>auth\<close>.
\<close>

theorem C3_bad_sign_commits_nothing:
  assumes "razorpay_signature \<noteq> sign d razorpay_order_id razorpay_payment_id"
  shows "verify_payment_route d now razorpay_payment_id razorpay_order_id razorpay_signature
           its tot addr userId s = (Responded 400 (Error_body ''Bad sign''), s) \<and>
         snd (verify_payment d now clock header razorpay_payment_id razorpay_order_id
                razorpay_signature its tot addr s) = s \<and>
         (auth d clock header = Inr userId \<longrightarrow>
            fst (verify_payment d now clock header razorpay_payment_id razorpay_order_id
                   razorpay_signature its tot addr s) = Responded 400 (Error_body ''Bad sign''))"
proof -
  have "verify_payment_route d now razorpay_payment_id razorpay_order_id razorpay_signature
           its tot addr userId s = (Responded 400 (Error_body ''Bad sign''), s)"
    using assms by (simp add: verify_payment_route_def)
  moreover have "snd (verify_payment d now clock header razorpay_payment_id razorpay_order_id
                razorpay_signature its tot addr s) = s"
    using assms by (simp add: verify_payment_reject)
  moreover have "auth d clock header = Inr userId \<longrightarrow>
            fst (verify_payment d now clock header razorpay_payment_id razorpay_order_id
                   razorpay_signature its tot addr s) = Responded 400 (Error_body ''Bad sign'')"
    using assms by (simp add: verify_payment_reject)
  ultimately show ?thesis by blast
qed

text \<open>C3 on a database with one new user: the forged confirmation changes nothing.\<close>

theorem C3_bad_sign_commits_nothing_witness:
  "''00'' \<noteq> sign sample_deps ''order_abc'' ''pay_xyz'' \<and>
   auth sample_deps 1 (Some (jwt_sign sample_deps 0 0)) = Inr 0 \<and>
   verify_payment sample_deps 1000 1 (Some (jwt_sign sample_deps 0 0)) ''pay_xyz'' ''order_abc''
      ''00'' [] 500 ''addr'' one_user = (Responded 400 (Error_body ''Bad sign''), one_user)"
proof -
  have ne: "''00'' \<noteq> sign sample_deps ''order_abc'' ''pay_xyz''"
    by (simp add: sign_def sample_simps)
  have a: "auth sample_deps 1 (Some (jwt_sign sample_deps 0 0)) = Inr 0"
    by (simp add: auth_sign_iff)
  show ?thesis
    using C3_bad_sign_commits_nothing [OF ne, where userId = 0 and clock = 1
        and header = "Some (jwt_sign sample_deps 0 0)" and now = 1000 and its = "[]"
        and tot = 500 and addr = "''addr''" and s = one_user] ne a
    by (simp add: prod_eq_iff)
qed

section \<open>The purchase ledger\<close>

text \<open>
  C1 (as stated: two verify-payment calls with one gatewayPaymentId leave exactly one
  Purchase, the second call failing with a duplicate-payment error). The code does not do
  this: on the empty database, the confirmation of \<open>pay_xyz\<close> sent twice is answered
  \<open>{ok: true}\<close> both times and leaves two Purchase documents with that paymentId.
\<close>

theorem C1_counterexample:
  "fst (pay_xyz 2000 2 (snd (pay_xyz 1000 1 empty_state))) = Responded 200 Ok_body \<and>
   map paymentId (Purchases (snd (pay_xyz 2000 2 (snd (pay_xyz 1000 1 empty_state)))))
     = [''pay_xyz'', ''pay_xyz'']"
  by (simp add: pay_xyz_def verify_payment_accept [where userId = 7] auth_sign_iff empty_state_def)

text \<open>
  C1, amended: the schema puts no uniqueness constraint on \<open>paymentId\<close> and the route
  looks nothing up, so every authenticated verify-payment call with a matching signature
  is answered \<open>{ok: true}\<close> and appends one Purchase document. Two calls with the same
  gatewayPaymentId leave two Purchase documents carrying it, whatever was stored before.
\<close>

theorem C1_each_call_records:
  assumes "auth d clock_a header_a = Inr user_a"
    and "auth d clock_b header_b = Inr user_b"
    and "sg = sign d order_id payment_id"
  shows "fst (verify_payment d now_a clock_a header_a payment_id order_id sg its_a tot_a addr_a s)
           = Responded 200 Ok_body \<and>
         fst (verify_payment d now_b clock_b header_b payment_id order_id sg its_b tot_b addr_b
               (snd (verify_payment d now_a clock_a header_a payment_id order_id sg its_a tot_a
                       addr_a s)))
           = Responded 200 Ok_body \<and>
         Purchases
           (snd (verify_payment d now_b clock_b header_b payment_id order_id sg its_b tot_b addr_b
               (snd (verify_payment d now_a clock_a header_a payment_id order_id sg its_a tot_a
                       addr_a s))))
           = Purchases s @
             [\<lparr>purchase_id = next_oid s, user = user_a, items = its_a, total_amount = tot_a,
               paymentId = payment_id, address = addr_a, date = now_a\<rparr>,
              \<lparr>purchase_id = Suc (next_oid s), user = user_b, items = its_b, total_amount = tot_b,
               paymentId = payment_id, address = addr_b, date = now_b\<rparr>]"
  using assms by (simp add: verify_payment_accept)

text \<open>C1, amended, on the empty database: the two documents that the two calls leave.\<close>

theorem C1_each_call_records_witness:
  "auth sample_deps 1 (Some (jwt_sign sample_deps 0 7)) = Inr 7 \<and>
   auth sample_deps 2 (Some (jwt_sign sample_deps 0 7)) = Inr 7 \<and>
   Purchases (snd (verify_payment sample_deps 2000 2 (Some (jwt_sign sample_deps 0 7))
        ''pay_xyz'' ''order_abc'' (sign sample_deps ''order_abc'' ''pay_xyz'') [] 500 ''addr''
        (snd (verify_payment sample_deps 1000 1 (Some (jwt_sign sample_deps 0 7))
        ''pay_xyz'' ''order_abc'' (sign sample_deps ''order_abc'' ''pay_xyz'') [] 500 ''addr''
        empty_state))))
     = [\<lparr>purchase_id = 0, user = 7, items = [], total_amount = 500,
         paymentId = ''pay_xyz'', address = ''addr'', date = 1000\<rparr>,
        \<lparr>purchase_id = 1, user = 7, items = [], total_amount = 500,
         paymentId = ''pay_xyz'', address = ''addr'', date = 2000\<rparr>]"
proof -
  have a1: "auth sample_deps 1 (Some (jwt_sign sample_deps 0 7)) = Inr 7"
    by (simp add: auth_sign_iff)
  have a2: "auth sample_deps 2 (Some (jwt_sign sample_deps 0 7)) = Inr 7"
    by (simp add: auth_sign_iff)
  show ?thesis
    using C1_each_call_records [OF a1 a2 refl, where order_id = "''order_abc''"
        and payment_id = "''pay_xyz''" and now_a = 1000 and its_a = "[]" and tot_a = 500
        and addr_a = "''addr''" and s = empty_state and now_b = 2000 and its_b = "[]"
        and tot_b = 500 and addr_b = "''addr''"] a1 a2
    by (simp add: empty_state_def)
qed

text \<open>
  C10: \<open>auth\<close> reads no collection: a token signed with the process secret (and not
  expired) resolves to the id it embeds whether or not a User document has that id.
  verify-payment then stores a Purchase whose \<open>user\<close> is that id, without looking the
  id up; when no User document has the id, the \<open>updateOne\<close> matches nothing and the
  User collection is unchanged.
\<close>

theorem C10_no_existence_check:
  assumes "sg = hs256 d (JWT_SECRET d) p"
    and "\<forall>e. exp_at p = Some e \<longrightarrow> clock < e"
    and "razorpay_signature = sign d razorpay_order_id razorpay_payment_id"
  shows "auth d clock (Some (Signed p sg)) = Inr (payload_id p) \<and>
         fst (verify_payment d now clock (Some (Signed p sg)) razorpay_payment_id
                razorpay_order_id razorpay_signature its tot addr s) = Responded 200 Ok_body \<and>
         Purchases (snd (verify_payment d now clock (Some (Signed p sg)) razorpay_payment_id
                razorpay_order_id razorpay_signature its tot addr s))
           = Purchases s @
             [\<lparr>purchase_id = next_oid s, user = payload_id p, items = its, total_amount = tot,
               paymentId = razorpay_payment_id, address = addr, date = now\<rparr>] \<and>
         (payload_id p \<notin> user_id ` set (Users s) \<longrightarrow>
            Users (snd (verify_payment d now clock (Some (Signed p sg)) razorpay_payment_id
                razorpay_order_id razorpay_signature its tot addr s)) = Users s)"
proof -
  have a: "auth d clock (Some (Signed p sg)) = Inr (payload_id p)"
    using assms(1,2) by (simp add: auth_signed)
  have u: "payload_id p \<notin> user_id ` set (Users s) \<Longrightarrow>
      updateOne (\<lambda>u. user_id u = payload_id p) (\<lambda>u. u\<lparr>isNewUser := False\<rparr>) (Users s) = Users s"
    by (rule updateOne_none) force
  show ?thesis
    using a u by (simp add: verify_payment_accept [OF a assms(3)])
qed

text \<open>
  C10 at id 42, which no document of \<open>one_user\<close> has: the token passes, the Purchase
  is stored for user 42, the User collection stays as it was.
\<close>

theorem C10_no_existence_check_witness:
  "auth sample_deps 5 (Some (jwt_sign sample_deps 0 42)) = Inr 42 \<and>
   42 \<notin> user_id ` set (Users one_user) \<and>
   fst (verify_payment sample_deps 5000 5 (Some (jwt_sign sample_deps 0 42)) ''pay_xyz''
          ''order_abc'' (sign sample_deps ''order_abc'' ''pay_xyz'') [] 500 ''addr'' one_user)
     = Responded 200 Ok_body \<and>
   Purchases (snd (verify_payment sample_deps 5000 5 (Some (jwt_sign sample_deps 0 42)) ''pay_xyz''
          ''order_abc'' (sign sample_deps ''order_abc'' ''pay_xyz'') [] 500 ''addr'' one_user))
     = [\<lparr>purchase_id = 1, user = 42, items = [], total_amount = 500,
         paymentId = ''pay_xyz'', address = ''addr'', date = 5000\<rparr>] \<and>
   Users (snd (verify_payment sample_deps 5000 5 (Some (jwt_sign sample_deps 0 42)) ''pay_xyz''
          ''order_abc'' (sign sample_deps ''order_abc'' ''pay_xyz'') [] 500 ''addr'' one_user))
     = Users one_user"
proof -
  let ?p = "\<lparr>payload_id = 42, iat = 0, exp_at = Some 604800\<rparr>"
  have tok: "jwt_sign sample_deps 0 42 = Signed ?p (hs256 sample_deps (JWT_SECRET sample_deps) ?p)"
    by (simp add: jwt_sign_def Let_def)
  have fresh: "\<forall>e. exp_at ?p = Some e \<longrightarrow> (5::int) < e"
    by simp
  show ?thesis
    using C10_no_existence_check [OF refl fresh refl, where d = sample_deps
        and razorpay_order_id = "''order_abc''" and razorpay_payment_id = "''pay_xyz''"
        and now = 5000 and its = "[]" and tot = 500 and addr = "''addr''" and s = one_user]
    unfolding tok [symmetric]
    by (simp add: one_user_def empty_state_def)
qed

end
